theory Spec2Isabelle
  imports Main "HOL-Library.Multiset"
begin

section \<open>The data store\<close>

text \<open>
  The chat service (\<^verbatim>\<open>src/unnamed/part_000\<close>) reads and writes four tables through the
  Prisma client: rides, bookings, chat messages and users. Identifiers and statuses are
  strings in the source (\<^verbatim>\<open>ride.status === "Cancelled"\<close>); a user's name may be null.
  The id and the creation time of a chat message are assigned by the store.
\<close>

record ride =
  ride_id :: string
  ride_driverId :: string
  ride_status :: string

record booking =
  booking_id :: string
  booking_rideId :: string
  booking_userId :: string
  booking_status :: string

record chatMessage =
  msg_id :: nat
  msg_rideId :: string
  msg_userId :: string
  msg_content :: string
  msg_createdAt :: nat

text \<open>The selection \<^verbatim>\<open>{ id: true, name: true, email: true }\<close> of a user.\<close>

record user =
  user_id :: string
  user_name :: "string option"
  user_email :: string

text \<open>
  The tables in the store's own row order, the sequence that numbers new chat messages and
  the store's clock.
\<close>

record store =
  rides :: "ride list"
  bookings :: "booking list"
  chatMessages :: "chatMessage list"
  users :: "user list"
  msg_seq :: nat
  clock :: nat

section \<open>Errors, the log and the environment\<close>

text \<open>
  \<open>Error m\<close> is \<^verbatim>\<open>new Error(m)\<close>, thrown by the service itself. \<open>TypeError m\<close> is
  raised by the JavaScript runtime when the service reads a property of null.
  \<open>StoreError raw\<close> is whatever the Prisma client threw, \<open>raw\<close> being its text.
\<close>

datatype err = Error string | TypeError string | StoreError string

text \<open>
  The rendering of a thrown value inside a template literal, \<^verbatim>\<open>`${error}`\<close>: an
  \<^verbatim>\<open>Error\<close> prints its name, and its message after a colon when it has one.
\<close>

fun to_string :: "err \<Rightarrow> string" where
  "to_string (Error m) = (if m = [] then ''Error'' else ''Error: '' @ m)"
| "to_string (TypeError m) = (if m = [] then ''TypeError'' else ''TypeError: '' @ m)"
| "to_string (StoreError raw) = raw"

text \<open>
  Every call of the Prisma client is one access to a store that other requests share.
  Before each access the environment either leaves the store alone (\<open>Quiet\<close>), makes the
  call fail (\<open>Fault raw\<close>), or has committed the work of other requests, so that the call
  sees the store \<open>s\<close> (\<open>Interfere s\<close>). The script lists what happens at the accesses to
  come; once it is used up the store stays quiet.
\<close>

datatype env = Quiet | Fault string | Interfere store

record world =
  db :: store
  logs :: "string list"
  script :: "env list"

definition logger_error :: "string \<Rightarrow> world \<Rightarrow> world" where
  "logger_error line w = w\<lparr>logs := logs w @ [line]\<rparr>"

text \<open>One awaited call of the Prisma client: the query \<open>q\<close> runs on the store of the moment.\<close>

definition prisma :: "(store \<Rightarrow> (err + 'a) \<times> store) \<Rightarrow> world \<Rightarrow> (err + 'a) \<times> world" where
  "prisma q w =
     (case script w of
        [] \<Rightarrow> (case q (db w) of (r, s') \<Rightarrow> (r, w\<lparr>db := s'\<rparr>))
      | Quiet # es \<Rightarrow> (case q (db w) of (r, s') \<Rightarrow> (r, w\<lparr>db := s', script := es\<rparr>))
      | Fault raw # es \<Rightarrow> (Inl (StoreError raw), w\<lparr>script := es\<rparr>)
      | Interfere s # es \<Rightarrow> (case q s of (r, s') \<Rightarrow> (r, w\<lparr>db := s', script := es\<rparr>)))"

section \<open>The queries the service issues\<close>

definition find_ride :: "string \<Rightarrow> store \<Rightarrow> ride option" where
  "find_ride rideId s = find (\<lambda>r. ride_id r = rideId) (rides s)"

definition find_user :: "string \<Rightarrow> store \<Rightarrow> user option" where
  "find_user userId s = find (\<lambda>u. user_id u = userId) (users s)"

text \<open>
  An included relation whose row is missing comes back as null. The source reads
  \<^verbatim>\<open>message.user.id\<close>, \<^verbatim>\<open>ride.driver.id\<close> and \<^verbatim>\<open>booking.user.id\<close> with no null
  check, so on such a row the runtime raises this error inside the service.
\<close>

definition null_id :: err where
  "null_id = TypeError ''Cannot read properties of null (reading 'id')''"

text \<open>
  \<^verbatim>\<open>prisma.ride.findUnique({ where: { id: rideId },
      include: { bookings: { where: { userId: userId } } } })\<close>
\<close>

definition ride_findUnique_bookings ::
  "string \<Rightarrow> string \<Rightarrow> store \<Rightarrow> (err + (ride \<times> booking list) option) \<times> store" where
  "ride_findUnique_bookings rideId userId s =
     (Inr (case find_ride rideId s of
             None \<Rightarrow> None
           | Some r \<Rightarrow>
               Some (r, filter (\<lambda>b. booking_rideId b = ride_id r \<and> booking_userId b = userId)
                          (bookings s))), s)"

text \<open>\<^verbatim>\<open>prisma.ride.findUnique({ where: { id: rideId }, select: { driverId: true } })\<close>\<close>

definition ride_findUnique_driverId :: "string \<Rightarrow> store \<Rightarrow> (err + string option) \<times> store" where
  "ride_findUnique_driverId rideId s = (Inr (map_option ride_driverId (find_ride rideId s)), s)"

text \<open>Joining each row with the user it refers to, null when there is no such user.\<close>

definition include_user :: "('a \<Rightarrow> string) \<Rightarrow> store \<Rightarrow> 'a list \<Rightarrow> ('a \<times> user option) list" where
  "include_user key s xs = map (\<lambda>x. (x, find_user (key x) s)) xs"

text \<open>
  \<^verbatim>\<open>prisma.chatMessage.findMany({ where: { rideId },
      include: { user: { select: { id: true, name: true, email: true } } },
      orderBy: { createdAt: "asc" } })\<close>
\<close>

definition chatMessage_findMany ::
  "string \<Rightarrow> store \<Rightarrow> (err + (chatMessage \<times> user option) list) \<times> store" where
  "chatMessage_findMany rideId s =
     (Inr (include_user msg_userId s
             (sort_key msg_createdAt (filter (\<lambda>m. msg_rideId m = rideId) (chatMessages s)))),
      s)"

text \<open>
  \<^verbatim>\<open>prisma.chatMessage.create({ data: { rideId, userId: senderId, content } })\<close>:
  one row is appended, with the id and the creation time the store gives it.
\<close>

definition chatMessage_create ::
  "string \<Rightarrow> string \<Rightarrow> string \<Rightarrow> store \<Rightarrow> (err + chatMessage) \<times> store" where
  "chatMessage_create rideId senderId content s =
     (let message = \<lparr>msg_id = msg_seq s, msg_rideId = rideId, msg_userId = senderId,
                     msg_content = content, msg_createdAt = clock s\<rparr>
      in (Inr message, s\<lparr>chatMessages := chatMessages s @ [message], msg_seq := Suc (msg_seq s)\<rparr>))"

text \<open>
  \<^verbatim>\<open>prisma.ride.findUnique({ where: { id: rideId },
      include: { driver: { select: ... }, bookings: { include: { user: { select: ... } } } } })\<close>
\<close>

definition ride_findUnique_participants ::
  "string \<Rightarrow> store \<Rightarrow>
   (err + (ride \<times> user option \<times> (booking \<times> user option) list) option) \<times> store" where
  "ride_findUnique_participants rideId s =
     (Inr (case find_ride rideId s of
             None \<Rightarrow> None
           | Some r \<Rightarrow>
               Some (r, find_user (ride_driverId r) s,
                     include_user booking_userId s
                       (filter (\<lambda>b. booking_rideId b = ride_id r) (bookings s)))), s)"

text \<open>
  \<^verbatim>\<open>xs.map(f)\<close> where \<open>f\<close> may throw: the elements are mapped from left to right and the
  first throw ends the whole call.
\<close>

fun map_throwing :: "('a \<Rightarrow> err + 'b) \<Rightarrow> 'a list \<Rightarrow> err + 'b list" where
  "map_throwing f [] = Inr []"
| "map_throwing f (x # xs) =
     (case f x of
        Inl error \<Rightarrow> Inl error
      | Inr y \<Rightarrow> (case map_throwing f xs of Inl error \<Rightarrow> Inl error | Inr ys \<Rightarrow> Inr (y # ys)))"

section \<open>The chat service\<close>

subsection \<open>validateCredentials\<close>

definition validateCredentials :: "string \<Rightarrow> string \<Rightarrow> world \<Rightarrow> (err + bool) \<times> world" where
  "validateCredentials rideId userId w =
     (case prisma (ride_findUnique_bookings rideId userId) w of
        (Inl error, w1) \<Rightarrow>
          (Inl (Error ''Something went wrong. Please try again letter.''),
           logger_error (''Unable to fetch ride: '' @ to_string error) w1)
      | (Inr None, w1) \<Rightarrow> (Inl (Error ''Ride not found''), w1)
      | (Inr (Some (ride, ride_bookings)), w1) \<Rightarrow>
          if ride_status ride = ''Cancelled''
          then (Inl (Error ''Ride is cancelled. Chat closed.''), w1)
          else
            (case (if ride_driverId ride = userId then Inr True
                   else if length ride_bookings > 0
                   then (if booking_status (ride_bookings ! 0) = ''CancelledDriver'' \<or>
                            booking_status (ride_bookings ! 0) = ''CancelledUser''
                         then Inl (Error ''Ride booking is cancelled. chat closed.'')
                         else Inr True)
                   else Inr False) of
               Inl error \<Rightarrow> (Inl error, w1)
             | Inr senderIsAuthenticated \<Rightarrow>
                 if \<not> senderIsAuthenticated then (Inl (Error ''Unauthorized sender''), w1)
                 else (Inr True, w1)))"

subsection \<open>insertMessage\<close>

definition insertMessage ::
  "string \<Rightarrow> string \<Rightarrow> string \<Rightarrow> world \<Rightarrow> (err + chatMessage) \<times> world" where
  "insertMessage rideId senderId content w =
     (case validateCredentials rideId senderId w of
        (Inl error, w1) \<Rightarrow>
          (Inl error, logger_error (''Error insert message: '' @ to_string error) w1)
      | (Inr ok, w1) \<Rightarrow>
          (case prisma (chatMessage_create rideId senderId content) w1 of
             (Inl error, w2) \<Rightarrow>
               (Inl error, logger_error (''Error insert message: '' @ to_string error) w2)
           | (Inr message, w2) \<Rightarrow> (Inr message, w2)))"

subsection \<open>getMessagesByRide\<close>

record userWithRole = user +
  isDriver :: bool

record messageWithRole = chatMessage +
  msg_user :: userWithRole

text \<open>
  The arrow function mapped over the messages: \<^verbatim>\<open>message.user.id\<close> throws when the
  included user is null.
\<close>

fun withRole :: "string \<Rightarrow> chatMessage \<times> user option \<Rightarrow> err + messageWithRole" where
  "withRole driverId (message, None) = Inl null_id"
| "withRole driverId (message, Some u) =
     Inr \<lparr>msg_id = msg_id message, msg_rideId = msg_rideId message,
          msg_userId = msg_userId message, msg_content = msg_content message,
          msg_createdAt = msg_createdAt message,
          msg_user = \<lparr>user_id = user_id u, user_name = user_name u, user_email = user_email u,
                      isDriver = (user_id u = driverId)\<rparr>\<rparr>"

definition getMessagesByRide ::
  "string \<Rightarrow> string \<Rightarrow> world \<Rightarrow> (err + messageWithRole list) \<times> world" where
  "getMessagesByRide userId rideId w =
     (case validateCredentials rideId userId w of
        (Inl error, w1) \<Rightarrow> (Inl error, w1)
      | (Inr ok, w1) \<Rightarrow>
          (case prisma (ride_findUnique_driverId rideId) w1 of
             (Inl error, w2) \<Rightarrow> (Inl error, w2)
           | (Inr None, w2) \<Rightarrow> (Inl (Error ''Ride not found''), w2)
           | (Inr (Some driverId), w2) \<Rightarrow>
               (case prisma (chatMessage_findMany rideId) w2 of
                  (Inl error, w3) \<Rightarrow> (Inl error, w3)
                | (Inr messages, w3) \<Rightarrow> (map_throwing (withRole driverId) messages, w3))))"

subsection \<open>getRideParticipants\<close>

record participant =
  p_id :: string
  p_name :: string
  p_email :: string
  p_isDriver :: bool

text \<open>
  JavaScript's \<^verbatim>\<open>name || fallback\<close> on a nullable string: null and the empty string are
  both falsy.
\<close>

definition or_default :: "string option \<Rightarrow> string \<Rightarrow> string" where
  "or_default name fallback =
     (case name of None \<Rightarrow> fallback | Some n \<Rightarrow> if n = [] then fallback else n)"

text \<open>
  The two object literals: \<^verbatim>\<open>ride.driver.id\<close> and \<^verbatim>\<open>booking.user.id\<close> throw when the
  included user is null.
\<close>

fun driverParticipant_of :: "user option \<Rightarrow> err + participant" where
  "driverParticipant_of None = Inl null_id"
| "driverParticipant_of (Some driver) =
     Inr \<lparr>p_id = user_id driver, p_name = or_default (user_name driver) ''Champion'',
          p_email = user_email driver, p_isDriver = True\<rparr>"

fun passengerParticipant_of :: "booking \<times> user option \<Rightarrow> err + participant" where
  "passengerParticipant_of (booking, None) = Inl null_id"
| "passengerParticipant_of (booking, Some u) =
     Inr \<lparr>p_id = user_id u, p_name = or_default (user_name u) ''Rider'',
          p_email = user_email u, p_isDriver = False\<rparr>"

definition getRideParticipants :: "string \<Rightarrow> world \<Rightarrow> (err + participant list) \<times> world" where
  "getRideParticipants rideId w =
     (let failed = (\<lambda>error w'.
            (Inl error,
             logger_error (''Error fetching participants for ride ID '' @ rideId @ '': '' @
                           to_string error) w'))
      in case prisma (ride_findUnique_participants rideId) w of
           (Inl error, w1) \<Rightarrow> failed error w1
         | (Inr None, w1) \<Rightarrow> failed (Error ''Ride not found'') w1
         | (Inr (Some (ride, driver, ride_bookings)), w1) \<Rightarrow>
             (case driverParticipant_of driver of
                Inl error \<Rightarrow> failed error w1
              | Inr driverParticipant \<Rightarrow>
                  (case map_throwing passengerParticipant_of ride_bookings of
                     Inl error \<Rightarrow> failed error w1
                   | Inr passengerParticipants \<Rightarrow>
                       (Inr (driverParticipant # passengerParticipants), w1))))"

section \<open>The failure taxonomy\<close>

text \<open>
  The service signals every failure of its own by the message of an \<^verbatim>\<open>Error\<close>. The four
  kinds of failure are read off those messages; an error of the store, or the fixed message
  that stands in for one, is a store failure. A \<^verbatim>\<open>TypeError\<close> of the runtime is none of
  the four.
\<close>

datatype failure = NotFound | ChatClosed | Unauthorized | StoreFailure | Unexpected

fun failure_of :: "err \<Rightarrow> failure" where
  "failure_of (Error m) =
     (if m = ''Ride not found'' then NotFound
      else if m = ''Ride is cancelled. Chat closed.'' then ChatClosed
      else if m = ''Ride booking is cancelled. chat closed.'' then ChatClosed
      else if m = ''Unauthorized sender'' then Unauthorized
      else StoreFailure)"
| "failure_of (TypeError m) = Unexpected"
| "failure_of (StoreError raw) = StoreFailure"

section \<open>Vocabulary for stating the properties\<close>

text \<open>
  The store the next access will see, if that access does not fail, and the world a read
  leaves behind.
\<close>

definition seen :: "world \<Rightarrow> store option" where
  "seen w =
     (case script w of
        [] \<Rightarrow> Some (db w)
      | Quiet # es \<Rightarrow> Some (db w)
      | Fault raw # es \<Rightarrow> None
      | Interfere s # es \<Rightarrow> Some s)"

definition after :: "store \<Rightarrow> world \<Rightarrow> world" where
  "after s w = w\<lparr>db := s, script := tl (script w)\<rparr>"

text \<open>No other request commits during the run (the store's own failures may still occur).\<close>

definition isolated :: "world \<Rightarrow> bool" where
  "isolated w = list_all (\<lambda>e. case e of Interfere s \<Rightarrow> False | _ \<Rightarrow> True) (script w)"

text \<open>The store neither fails nor changes under the run.\<close>

definition undisturbed :: "world \<Rightarrow> bool" where
  "undisturbed w = list_all (\<lambda>e. case e of Quiet \<Rightarrow> True | _ \<Rightarrow> False) (script w)"

text \<open>The bookings a user holds on a ride, and all bookings of a ride, in the store's order.\<close>

definition user_bookings :: "string \<Rightarrow> string \<Rightarrow> store \<Rightarrow> booking list" where
  "user_bookings rideId userId s =
     filter (\<lambda>b. booking_rideId b = rideId \<and> booking_userId b = userId) (bookings s)"

definition ride_bookings :: "string \<Rightarrow> store \<Rightarrow> booking list" where
  "ride_bookings rideId s = filter (\<lambda>b. booking_rideId b = rideId) (bookings s)"

definition ride_messages :: "string \<Rightarrow> store \<Rightarrow> chatMessage list" where
  "ride_messages rideId s = filter (\<lambda>m. msg_rideId m = rideId) (chatMessages s)"

text \<open>Referential integrity: the rows refer to users that exist.\<close>

definition users_present :: "('a \<Rightarrow> string) \<Rightarrow> store \<Rightarrow> 'a list \<Rightarrow> bool" where
  "users_present key s xs = list_all (\<lambda>x. find_user (key x) s \<noteq> None) xs"

text \<open>What getMessagesByRide makes of a message row whose sender is in the store.\<close>

definition role_row :: "string \<Rightarrow> store \<Rightarrow> chatMessage \<Rightarrow> messageWithRole" where
  "role_row driverId s m =
     \<lparr>msg_id = msg_id m, msg_rideId = msg_rideId m, msg_userId = msg_userId m,
      msg_content = msg_content m, msg_createdAt = msg_createdAt m,
      msg_user = \<lparr>user_id = user_id (the (find_user (msg_userId m) s)),
                  user_name = user_name (the (find_user (msg_userId m) s)),
                  user_email = user_email (the (find_user (msg_userId m) s)),
                  isDriver = (user_id (the (find_user (msg_userId m) s)) = driverId)\<rparr>\<rparr>"

text \<open>
  The same for what getRideParticipants reads of a ride: its driver and the users of its
  bookings are in the store. Nothing is asked when the ride is not there.
\<close>

definition participants_present :: "string \<Rightarrow> store \<Rightarrow> bool" where
  "participants_present rideId s =
     (case find_ride rideId s of
        None \<Rightarrow> True
      | Some r \<Rightarrow>
          find_user (ride_driverId r) s \<noteq> None \<and>
          users_present booking_userId s (ride_bookings rideId s))"

subsection \<open>A small store to run the service on\<close>

definition demo_users :: "user list" where
  "demo_users =
     [\<lparr>user_id = ''dora'', user_name = None, user_email = ''dora@example.org''\<rparr>,
      \<lparr>user_id = ''uma'', user_name = Some ''Uma'', user_email = ''uma@example.org''\<rparr>,
      \<lparr>user_id = ''vik'', user_name = Some '''', user_email = ''vik@example.org''\<rparr>]"

definition demo_ride :: "string \<Rightarrow> ride" where
  "demo_ride status = \<lparr>ride_id = ''r1'', ride_driverId = ''dora'', ride_status = status\<rparr>"

definition demo_booking :: "string \<Rightarrow> string \<Rightarrow> string \<Rightarrow> booking" where
  "demo_booking bid userId status =
     \<lparr>booking_id = bid, booking_rideId = ''r1'', booking_userId = userId,
      booking_status = status\<rparr>"

definition demo_message :: "nat \<Rightarrow> string \<Rightarrow> string \<Rightarrow> nat \<Rightarrow> chatMessage" where
  "demo_message n userId content t =
     \<lparr>msg_id = n, msg_rideId = ''r1'', msg_userId = userId, msg_content = content,
      msg_createdAt = t\<rparr>"

definition demo_store :: "string \<Rightarrow> booking list \<Rightarrow> chatMessage list \<Rightarrow> store" where
  "demo_store status bs ms =
     \<lparr>rides = [demo_ride status], bookings = bs, chatMessages = ms, users = demo_users,
      msg_seq = length ms, clock = 100\<rparr>"

definition demo_world :: "store \<Rightarrow> env list \<Rightarrow> world" where
  "demo_world s es = \<lparr>db = s, logs = [], script = es\<rparr>"

text \<open>What is left once the ride has been deleted by another request.\<close>

definition demo_vanished :: store where
  "demo_vanished =
     \<lparr>rides = [], bookings = [], chatMessages = [], users = demo_users, msg_seq = 0,
      clock = 101\<rparr>"

text \<open>A chat out of order in the table, with one message of another ride in between.\<close>

definition demo_chat :: "chatMessage list" where
  "demo_chat =
     [demo_message 0 ''uma'' ''on my way'' 30,
      (demo_message 1 ''uma'' ''elsewhere'' 5)\<lparr>msg_rideId := ''r2''\<rparr>,
      demo_message 2 ''dora'' ''pickup at 9'' 10,
      demo_message 3 ''uma'' ''ok'' 20]"

lemmas demo_defs = demo_users_def demo_ride_def demo_booking_def demo_message_def
  demo_store_def demo_world_def demo_vanished_def demo_chat_def seen_def find_ride_def find_user_def user_bookings_def
  ride_bookings_def ride_messages_def

section \<open>Store accesses\<close>

lemma prisma_seen:
  "seen w = Some s \<Longrightarrow> prisma q w = (fst (q s), after (snd (q s)) w)"
  by (auto simp: seen_def prisma_def after_def split: list.splits env.splits prod.splits)

lemma prisma_fault:
  "script w = Fault raw # es \<Longrightarrow> prisma q w = (Inl (StoreError raw), w\<lparr>script := es\<rparr>)"
  by (simp add: prisma_def)

lemma find_ride_id: "find_ride rideId s = Some r \<Longrightarrow> ride_id r = rideId"
  by (auto simp: find_ride_def find_Some_iff)

lemma find_user_id: "find_user userId s = Some u \<Longrightarrow> user_id u = userId"
  by (auto simp: find_user_def find_Some_iff)

section \<open>The verdict of validateCredentials\<close>

text \<open>When the lookup is answered from the store \<open>s\<close>, the verdict is a function of \<open>s\<close>.\<close>

lemma validateCredentials_seen:
  assumes "seen w = Some s"
  shows "validateCredentials rideId userId w =
    ((case find_ride rideId s of
        None \<Rightarrow> Inl (Error ''Ride not found'')
      | Some r \<Rightarrow>
          if ride_status r = ''Cancelled'' then Inl (Error ''Ride is cancelled. Chat closed.'')
          else if ride_driverId r = userId then Inr True
          else (case user_bookings (ride_id r) userId s of
                  [] \<Rightarrow> Inl (Error ''Unauthorized sender'')
                | b # bs \<Rightarrow>
                    if booking_status b = ''CancelledDriver'' \<or>
                       booking_status b = ''CancelledUser''
                    then Inl (Error ''Ride booking is cancelled. chat closed.'')
                    else Inr True)), after s w)"
  by (auto simp: validateCredentials_def prisma_seen[OF assms] ride_findUnique_bookings_def
      user_bookings_def split: option.splits list.splits)

lemma insertMessage_propagates:
  "fst (validateCredentials rideId senderId w) = Inl e \<Longrightarrow>
   fst (insertMessage rideId senderId content w) = Inl e"
  by (cases "validateCredentials rideId senderId w") (simp add: insertMessage_def)

lemma getMessagesByRide_propagates:
  "fst (validateCredentials rideId userId w) = Inl e \<Longrightarrow>
   fst (getMessagesByRide userId rideId w) = Inl e"
  by (cases "validateCredentials rideId userId w") (simp add: getMessagesByRide_def)

section \<open>A cancelled ride closes the chat\<close>

text \<open>
  C2. Whenever the ride that the lookup returns has status "Cancelled", the validator,
  insertMessage and getMessagesByRide all fail with "Ride is cancelled. Chat closed.", a
  ChatClosed failure, whoever the caller is: the user id is arbitrary, and nothing is
  asked of the bookings.
\<close>

theorem cancelled_ride_closes_chat:
  assumes "seen w = Some s" and "find_ride rideId s = Some r"
    and "ride_status r = ''Cancelled''"
  shows "fst (validateCredentials rideId userId w) =
           Inl (Error ''Ride is cancelled. Chat closed.'')
       \<and> fst (insertMessage rideId userId content w) =
           Inl (Error ''Ride is cancelled. Chat closed.'')
       \<and> fst (getMessagesByRide userId rideId w) =
           Inl (Error ''Ride is cancelled. Chat closed.'')
       \<and> failure_of (Error ''Ride is cancelled. Chat closed.'') = ChatClosed"
proof -
  have v: "fst (validateCredentials rideId userId w) =
             Inl (Error ''Ride is cancelled. Chat closed.'')"
    using assms by (simp add: validateCredentials_seen)
  show ?thesis
    using v insertMessage_propagates[OF v] getMessagesByRide_propagates[OF v] by simp
qed

theorem cancelled_ride_closes_chat_witness:
  "seen (demo_world (demo_store ''Cancelled'' [demo_booking ''b1'' ''uma'' ''Confirmed''] []) []) =
     Some (demo_store ''Cancelled'' [demo_booking ''b1'' ''uma'' ''Confirmed''] [])
   \<and> find_ride ''r1'' (demo_store ''Cancelled'' [demo_booking ''b1'' ''uma'' ''Confirmed''] []) =
     Some (demo_ride ''Cancelled'')
   \<and> ride_status (demo_ride ''Cancelled'') = ''Cancelled''
   \<and> fst (insertMessage ''r1'' ''dora'' ''hi''
        (demo_world (demo_store ''Cancelled'' [demo_booking ''b1'' ''uma'' ''Confirmed''] []) [])) =
     Inl (Error ''Ride is cancelled. Chat closed.'')
   \<and> fst (getMessagesByRide ''uma'' ''r1''
        (demo_world (demo_store ''Cancelled'' [demo_booking ''b1'' ''uma'' ''Confirmed''] []) [])) =
     Inl (Error ''Ride is cancelled. Chat closed.'')"
  using cancelled_ride_closes_chat
      [of "demo_world (demo_store ''Cancelled'' [demo_booking ''b1'' ''uma'' ''Confirmed''] []) []"
          "demo_store ''Cancelled'' [demo_booking ''b1'' ''uma'' ''Confirmed''] []"
          "''r1''" "demo_ride ''Cancelled''" "''dora''" "''hi''"]
    cancelled_ride_closes_chat
      [of "demo_world (demo_store ''Cancelled'' [demo_booking ''b1'' ''uma'' ''Confirmed''] []) []"
          "demo_store ''Cancelled'' [demo_booking ''b1'' ''uma'' ''Confirmed''] []"
          "''r1''" "demo_ride ''Cancelled''" "''uma''" "''hi''"]
  by (simp add: demo_defs)

section \<open>A user with no relation to the ride\<close>

text \<open>
  C3. For a ride that exists and is not cancelled, a user who is not its driver and holds
  no booking on it is refused by the validator, by insertMessage and by getMessagesByRide
  with "Unauthorized sender", an Unauthorized failure.
\<close>

theorem stranger_is_unauthorized:
  assumes "seen w = Some s" and "find_ride rideId s = Some r"
    and "ride_status r \<noteq> ''Cancelled''"
    and "ride_driverId r \<noteq> userId"
    and "user_bookings rideId userId s = []"
  shows "fst (validateCredentials rideId userId w) = Inl (Error ''Unauthorized sender'')
       \<and> fst (insertMessage rideId userId content w) = Inl (Error ''Unauthorized sender'')
       \<and> fst (getMessagesByRide userId rideId w) = Inl (Error ''Unauthorized sender'')
       \<and> failure_of (Error ''Unauthorized sender'') = Unauthorized"
proof -
  have "ride_id r = rideId"
    using assms(2) by (rule find_ride_id)
  with assms have v: "fst (validateCredentials rideId userId w) = Inl (Error ''Unauthorized sender'')"
    by (simp add: validateCredentials_seen)
  show ?thesis
    using v insertMessage_propagates[OF v] getMessagesByRide_propagates[OF v] by simp
qed

theorem stranger_is_unauthorized_witness:
  "seen (demo_world (demo_store ''Confirmed'' [demo_booking ''b1'' ''uma'' ''Confirmed''] []) []) =
     Some (demo_store ''Confirmed'' [demo_booking ''b1'' ''uma'' ''Confirmed''] [])
   \<and> find_ride ''r1'' (demo_store ''Confirmed'' [demo_booking ''b1'' ''uma'' ''Confirmed''] []) =
     Some (demo_ride ''Confirmed'')
   \<and> ride_status (demo_ride ''Confirmed'') \<noteq> ''Cancelled''
   \<and> ride_driverId (demo_ride ''Confirmed'') \<noteq> ''vik''
   \<and> user_bookings ''r1'' ''vik''
        (demo_store ''Confirmed'' [demo_booking ''b1'' ''uma'' ''Confirmed''] []) = []
   \<and> fst (insertMessage ''r1'' ''vik'' ''hi''
        (demo_world (demo_store ''Confirmed'' [demo_booking ''b1'' ''uma'' ''Confirmed''] []) [])) =
     Inl (Error ''Unauthorized sender'')
   \<and> fst (getMessagesByRide ''vik'' ''r1''
        (demo_world (demo_store ''Confirmed'' [demo_booking ''b1'' ''uma'' ''Confirmed''] []) [])) =
     Inl (Error ''Unauthorized sender'')"
  using stranger_is_unauthorized
      [of "demo_world (demo_store ''Confirmed'' [demo_booking ''b1'' ''uma'' ''Confirmed''] []) []"
          "demo_store ''Confirmed'' [demo_booking ''b1'' ''uma'' ''Confirmed''] []"
          "''r1''" "demo_ride ''Confirmed''" "''vik''" "''hi''"]
  by (simp add: demo_defs)

section \<open>A ride that does not exist\<close>

lemma getMessagesByRide_recheck:
  assumes "validateCredentials rideId userId w = (Inr ok, w1)"
    and "seen w1 = Some s2" and "find_ride rideId s2 = None"
  shows "getMessagesByRide userId rideId w = (Inl (Error ''Ride not found''), after s2 w1)"
  using assms
  by (simp add: getMessagesByRide_def prisma_seen ride_findUnique_driverId_def)

text \<open>
  C7. If the store holds no ride with the given id, the validator, insertMessage and
  getMessagesByRide fail with "Ride not found", a NotFound failure. getMessagesByRide reads
  the ride a second time after the validator has passed; if the ride is gone by then (another
  request deleted it in between), it fails with "Ride not found" as well.
\<close>

theorem missing_ride_not_found:
  "(seen w = Some s \<and> find_ride rideId s = None \<longrightarrow>
      fst (validateCredentials rideId userId w) = Inl (Error ''Ride not found'')
    \<and> fst (insertMessage rideId userId content w) = Inl (Error ''Ride not found'')
    \<and> fst (getMessagesByRide userId rideId w) = Inl (Error ''Ride not found''))
   \<and> (validateCredentials rideId userId w = (Inr ok, w1) \<and> seen w1 = Some s2 \<and>
      find_ride rideId s2 = None \<longrightarrow>
      fst (getMessagesByRide userId rideId w) = Inl (Error ''Ride not found''))
   \<and> failure_of (Error ''Ride not found'') = NotFound"
proof (intro conjI impI)
  assume a: "seen w = Some s \<and> find_ride rideId s = None"
  then show v: "fst (validateCredentials rideId userId w) = Inl (Error ''Ride not found'')"
    by (simp add: validateCredentials_seen)
  show "fst (insertMessage rideId userId content w) = Inl (Error ''Ride not found'')"
    using v by (rule insertMessage_propagates)
  show "fst (getMessagesByRide userId rideId w) = Inl (Error ''Ride not found'')"
    using v by (rule getMessagesByRide_propagates)
next
  assume "validateCredentials rideId userId w = (Inr ok, w1) \<and> seen w1 = Some s2 \<and>
      find_ride rideId s2 = None"
  then show "fst (getMessagesByRide userId rideId w) = Inl (Error ''Ride not found'')"
    by (simp add: getMessagesByRide_recheck)
next
  show "failure_of (Error ''Ride not found'') = NotFound" by simp
qed

theorem missing_ride_not_found_witness:
  "seen (demo_world (demo_store ''Confirmed'' [] []) []) = Some (demo_store ''Confirmed'' [] [])
   \<and> find_ride ''r2'' (demo_store ''Confirmed'' [] []) = None
   \<and> fst (insertMessage ''r2'' ''dora'' ''hi'' (demo_world (demo_store ''Confirmed'' [] []) [])) =
       Inl (Error ''Ride not found'')
   \<and> validateCredentials ''r1'' ''dora''
       (demo_world (demo_store ''Confirmed'' [] []) [Quiet, Interfere demo_vanished]) =
       (Inr True, demo_world (demo_store ''Confirmed'' [] []) [Interfere demo_vanished])
   \<and> seen (demo_world (demo_store ''Confirmed'' [] []) [Interfere demo_vanished]) =
       Some demo_vanished
   \<and> find_ride ''r1'' demo_vanished = None
   \<and> fst (getMessagesByRide ''dora'' ''r1''
       (demo_world (demo_store ''Confirmed'' [] []) [Quiet, Interfere demo_vanished])) =
       Inl (Error ''Ride not found'')"
  using missing_ride_not_found
      [of "demo_world (demo_store ''Confirmed'' [] []) []" "demo_store ''Confirmed'' [] []"
          "''r2''" "''dora''" "''hi''" True "demo_world (demo_store ''Confirmed'' [] []) []"
          "demo_store ''Confirmed'' [] []"]
    missing_ride_not_found
      [of "demo_world (demo_store ''Confirmed'' [] []) [Quiet, Interfere demo_vanished]"
          "demo_store ''Confirmed'' [] []" "''r1''" "''dora''" "''hi''" True
          "demo_world (demo_store ''Confirmed'' [] []) [Interfere demo_vanished]"
          demo_vanished]
    validateCredentials_seen
      [of "demo_world (demo_store ''Confirmed'' [] []) [Quiet, Interfere demo_vanished]"
          "demo_store ''Confirmed'' [] []" "''r1''" "''dora''"]
  by (simp add: demo_defs after_def)

section \<open>Cancelled bookings\<close>

text \<open>
  C1 as stated fails on two inputs. First, the ride's driver holds a booking on the ride and
  that booking is cancelled: the driver is authorized all the same, insertMessage stores the
  message and getMessagesByRide returns the (empty) list. Second, a rider holds two bookings
  on the ride, the first confirmed and the second cancelled: only the first is looked at,
  and both operations succeed.
\<close>

theorem cancelled_booking_counterexample:
  "find_ride ''r1'' (demo_store ''Confirmed'' [demo_booking ''b1'' ''dora'' ''CancelledUser''] []) =
     Some (demo_ride ''Confirmed'')
   \<and> user_bookings ''r1'' ''dora''
       (demo_store ''Confirmed'' [demo_booking ''b1'' ''dora'' ''CancelledUser''] []) =
     [demo_booking ''b1'' ''dora'' ''CancelledUser'']
   \<and> booking_status (demo_booking ''b1'' ''dora'' ''CancelledUser'') = ''CancelledUser''
   \<and> fst (insertMessage ''r1'' ''dora'' ''hi''
       (demo_world (demo_store ''Confirmed'' [demo_booking ''b1'' ''dora'' ''CancelledUser''] []) [])) =
     Inr (demo_message 0 ''dora'' ''hi'' 100)
   \<and> fst (getMessagesByRide ''dora'' ''r1''
       (demo_world (demo_store ''Confirmed'' [demo_booking ''b1'' ''dora'' ''CancelledUser''] []) [])) =
     Inr []
   \<and> user_bookings ''r1'' ''uma''
       (demo_store ''Confirmed''
          [demo_booking ''b1'' ''uma'' ''Confirmed'', demo_booking ''b2'' ''uma'' ''CancelledUser''] []) =
     [demo_booking ''b1'' ''uma'' ''Confirmed'', demo_booking ''b2'' ''uma'' ''CancelledUser'']
   \<and> ride_driverId (demo_ride ''Confirmed'') \<noteq> ''uma''
   \<and> fst (insertMessage ''r1'' ''uma'' ''hi''
       (demo_world (demo_store ''Confirmed''
          [demo_booking ''b1'' ''uma'' ''Confirmed'', demo_booking ''b2'' ''uma'' ''CancelledUser''] []) [])) =
     Inr (demo_message 0 ''uma'' ''hi'' 100)
   \<and> fst (getMessagesByRide ''uma'' ''r1''
       (demo_world (demo_store ''Confirmed''
          [demo_booking ''b1'' ''uma'' ''Confirmed'', demo_booking ''b2'' ''uma'' ''CancelledUser''] []) [])) =
     Inr []"
  by (simp add: demo_defs insertMessage_def getMessagesByRide_def validateCredentials_def
      prisma_def ride_findUnique_bookings_def ride_findUnique_driverId_def
      chatMessage_create_def chatMessage_findMany_def include_user_def Let_def)

text \<open>
  C1, amended. For a ride that exists and a user who is not its driver, if the first booking
  the store returns for that user on that ride has status "CancelledDriver" or
  "CancelledUser", then the validator, insertMessage and getMessagesByRide fail with a
  ChatClosed failure: "Ride booking is cancelled. chat closed.", or "Ride is cancelled.
  Chat closed." when the ride itself is cancelled too.
\<close>

theorem cancelled_booking_closes_chat:
  assumes "seen w = Some s" and "find_ride rideId s = Some r"
    and "ride_driverId r \<noteq> userId"
    and "user_bookings rideId userId s = b # bs"
    and "booking_status b = ''CancelledDriver'' \<or> booking_status b = ''CancelledUser''"
  shows "fst (validateCredentials rideId userId w) =
           Inl (Error (if ride_status r = ''Cancelled'' then ''Ride is cancelled. Chat closed.''
                       else ''Ride booking is cancelled. chat closed.''))
       \<and> fst (insertMessage rideId userId content w) =
           Inl (Error (if ride_status r = ''Cancelled'' then ''Ride is cancelled. Chat closed.''
                       else ''Ride booking is cancelled. chat closed.''))
       \<and> fst (getMessagesByRide userId rideId w) =
           Inl (Error (if ride_status r = ''Cancelled'' then ''Ride is cancelled. Chat closed.''
                       else ''Ride booking is cancelled. chat closed.''))
       \<and> failure_of (Error (if ride_status r = ''Cancelled'' then ''Ride is cancelled. Chat closed.''
                       else ''Ride booking is cancelled. chat closed.'')) = ChatClosed"
proof -
  let ?e = "Error (if ride_status r = ''Cancelled'' then ''Ride is cancelled. Chat closed.''
                   else ''Ride booking is cancelled. chat closed.'')"
  have "ride_id r = rideId"
    using assms(2) by (rule find_ride_id)
  with assms have v: "fst (validateCredentials rideId userId w) = Inl ?e"
    by (auto simp: validateCredentials_seen)
  have k: "failure_of ?e = ChatClosed"
    by simp
  show ?thesis
    using v insertMessage_propagates[OF v] getMessagesByRide_propagates[OF v] k by blast
qed

theorem cancelled_booking_closes_chat_witness:
  "seen (demo_world (demo_store ''Confirmed'' [demo_booking ''b1'' ''uma'' ''CancelledUser''] []) []) =
     Some (demo_store ''Confirmed'' [demo_booking ''b1'' ''uma'' ''CancelledUser''] [])
   \<and> find_ride ''r1'' (demo_store ''Confirmed'' [demo_booking ''b1'' ''uma'' ''CancelledUser''] []) =
     Some (demo_ride ''Confirmed'')
   \<and> ride_driverId (demo_ride ''Confirmed'') \<noteq> ''uma''
   \<and> user_bookings ''r1'' ''uma''
       (demo_store ''Confirmed'' [demo_booking ''b1'' ''uma'' ''CancelledUser''] []) =
     [demo_booking ''b1'' ''uma'' ''CancelledUser'']
   \<and> booking_status (demo_booking ''b1'' ''uma'' ''CancelledUser'') = ''CancelledUser''
   \<and> fst (insertMessage ''r1'' ''uma'' ''hi''
       (demo_world (demo_store ''Confirmed'' [demo_booking ''b1'' ''uma'' ''CancelledUser''] []) [])) =
     Inl (Error ''Ride booking is cancelled. chat closed.'')
   \<and> fst (getMessagesByRide ''uma'' ''r1''
       (demo_world (demo_store ''Confirmed'' [demo_booking ''b1'' ''uma'' ''CancelledUser''] []) [])) =
     Inl (Error ''Ride booking is cancelled. chat closed.'')"
  using cancelled_booking_closes_chat
      [of "demo_world (demo_store ''Confirmed'' [demo_booking ''b1'' ''uma'' ''CancelledUser''] []) []"
          "demo_store ''Confirmed'' [demo_booking ''b1'' ''uma'' ''CancelledUser''] []"
          "''r1''" "demo_ride ''Confirmed''" "''uma''"
          "demo_booking ''b1'' ''uma'' ''CancelledUser''" "[]" "''hi''"]
  by (simp add: demo_defs)

text \<open>
  C9. For a ride that exists and is not cancelled: the driver passes the validator whatever
  bookings the driver holds, and for any other user with at least one booking the verdict is
  decided by the status of the first booking returned, the later ones playing no part.
\<close>

theorem only_first_booking_inspected:
  assumes "seen w = Some s" and "find_ride rideId s = Some r"
    and "ride_status r \<noteq> ''Cancelled''"
  shows "(ride_driverId r = userId \<longrightarrow> fst (validateCredentials rideId userId w) = Inr True)
       \<and> (ride_driverId r \<noteq> userId \<and> user_bookings rideId userId s = b # bs \<longrightarrow>
            fst (validateCredentials rideId userId w) =
              (if booking_status b = ''CancelledDriver'' \<or> booking_status b = ''CancelledUser''
               then Inl (Error ''Ride booking is cancelled. chat closed.'')
               else Inr True))"
proof -
  have "ride_id r = rideId"
    using assms(2) by (rule find_ride_id)
  with assms show ?thesis
    by (auto simp: validateCredentials_seen)
qed

theorem only_first_booking_inspected_witness:
  "seen (demo_world (demo_store ''Confirmed''
           [demo_booking ''b0'' ''dora'' ''CancelledUser'', demo_booking ''b1'' ''uma'' ''Confirmed'',
            demo_booking ''b2'' ''uma'' ''CancelledUser''] []) []) =
     Some (demo_store ''Confirmed''
           [demo_booking ''b0'' ''dora'' ''CancelledUser'', demo_booking ''b1'' ''uma'' ''Confirmed'',
            demo_booking ''b2'' ''uma'' ''CancelledUser''] [])
   \<and> find_ride ''r1'' (demo_store ''Confirmed''
           [demo_booking ''b0'' ''dora'' ''CancelledUser'', demo_booking ''b1'' ''uma'' ''Confirmed'',
            demo_booking ''b2'' ''uma'' ''CancelledUser''] []) = Some (demo_ride ''Confirmed'')
   \<and> ride_status (demo_ride ''Confirmed'') \<noteq> ''Cancelled''
   \<and> ride_driverId (demo_ride ''Confirmed'') = ''dora''
   \<and> user_bookings ''r1'' ''dora'' (demo_store ''Confirmed''
           [demo_booking ''b0'' ''dora'' ''CancelledUser'', demo_booking ''b1'' ''uma'' ''Confirmed'',
            demo_booking ''b2'' ''uma'' ''CancelledUser''] []) =
       [demo_booking ''b0'' ''dora'' ''CancelledUser'']
   \<and> fst (validateCredentials ''r1'' ''dora'' (demo_world (demo_store ''Confirmed''
           [demo_booking ''b0'' ''dora'' ''CancelledUser'', demo_booking ''b1'' ''uma'' ''Confirmed'',
            demo_booking ''b2'' ''uma'' ''CancelledUser''] []) [])) = Inr True
   \<and> user_bookings ''r1'' ''uma'' (demo_store ''Confirmed''
           [demo_booking ''b0'' ''dora'' ''CancelledUser'', demo_booking ''b1'' ''uma'' ''Confirmed'',
            demo_booking ''b2'' ''uma'' ''CancelledUser''] []) =
       [demo_booking ''b1'' ''uma'' ''Confirmed'', demo_booking ''b2'' ''uma'' ''CancelledUser'']
   \<and> fst (validateCredentials ''r1'' ''uma'' (demo_world (demo_store ''Confirmed''
           [demo_booking ''b0'' ''dora'' ''CancelledUser'', demo_booking ''b1'' ''uma'' ''Confirmed'',
            demo_booking ''b2'' ''uma'' ''CancelledUser''] []) [])) = Inr True"
  using only_first_booking_inspected
      [of "demo_world (demo_store ''Confirmed''
           [demo_booking ''b0'' ''dora'' ''CancelledUser'', demo_booking ''b1'' ''uma'' ''Confirmed'',
            demo_booking ''b2'' ''uma'' ''CancelledUser''] []) []"
          "demo_store ''Confirmed''
           [demo_booking ''b0'' ''dora'' ''CancelledUser'', demo_booking ''b1'' ''uma'' ''Confirmed'',
            demo_booking ''b2'' ''uma'' ''CancelledUser''] []"
          "''r1''" "demo_ride ''Confirmed''" "''dora''"
          "demo_booking ''b0'' ''dora'' ''CancelledUser''" "[]"]
    only_first_booking_inspected
      [of "demo_world (demo_store ''Confirmed''
           [demo_booking ''b0'' ''dora'' ''CancelledUser'', demo_booking ''b1'' ''uma'' ''Confirmed'',
            demo_booking ''b2'' ''uma'' ''CancelledUser''] []) []"
          "demo_store ''Confirmed''
           [demo_booking ''b0'' ''dora'' ''CancelledUser'', demo_booking ''b1'' ''uma'' ''Confirmed'',
            demo_booking ''b2'' ''uma'' ''CancelledUser''] []"
          "''r1''" "demo_ride ''Confirmed''" "''uma''"
          "demo_booking ''b1'' ''uma'' ''Confirmed''"
          "[demo_booking ''b2'' ''uma'' ''CancelledUser'']"]
  by (simp add: demo_defs)

section \<open>Failures of the store\<close>

lemma validateCredentials_fault:
  "script w = Fault raw # es \<Longrightarrow>
   validateCredentials rideId userId w =
     (Inl (Error ''Something went wrong. Please try again letter.''),
      logger_error (''Unable to fetch ride: '' @ raw) (w\<lparr>script := es\<rparr>))"
  by (simp add: validateCredentials_def prisma_fault)

text \<open>
  C8. When the validator's ride lookup fails in the store with the text \<open>raw\<close>, the validator
  logs "Unable to fetch ride: raw" and throws a new error that carries the fixed message
  "Something went wrong. Please try again letter." in place of \<open>raw\<close>; insertMessage and
  getMessagesByRide hand that error to their caller (insertMessage after logging it once
  more). When the validator has passed and the insert itself fails in the store,
  insertMessage logs "Error insert message: raw" and rethrows the store's error as it is.
\<close>

theorem store_failures_are_logged:
  "(script w = Fault raw # es \<longrightarrow>
      validateCredentials rideId userId w =
        (Inl (Error ''Something went wrong. Please try again letter.''),
         w\<lparr>script := es, logs := logs w @ [''Unable to fetch ride: '' @ raw]\<rparr>)
    \<and> insertMessage rideId userId content w =
        (Inl (Error ''Something went wrong. Please try again letter.''),
         w\<lparr>script := es,
           logs := logs w @
             [''Unable to fetch ride: '' @ raw,
              ''Error insert message: Error: Something went wrong. Please try again letter.'']\<rparr>)
    \<and> getMessagesByRide userId rideId w =
        (Inl (Error ''Something went wrong. Please try again letter.''),
         w\<lparr>script := es, logs := logs w @ [''Unable to fetch ride: '' @ raw]\<rparr>))
   \<and> (validateCredentials rideId userId w = (Inr ok, w1) \<and> script w1 = Fault raw # es \<longrightarrow>
      insertMessage rideId userId content w =
        (Inl (StoreError raw),
         w1\<lparr>script := es, logs := logs w1 @ [''Error insert message: '' @ raw]\<rparr>))"
  by (auto simp: validateCredentials_fault insertMessage_def getMessagesByRide_def
      logger_error_def prisma_fault)

theorem store_failures_are_logged_witness:
  "script (demo_world (demo_store ''Confirmed'' [] []) [Fault ''P1001: cannot reach database'']) =
     Fault ''P1001: cannot reach database'' # []
   \<and> insertMessage ''r1'' ''dora'' ''hi''
       (demo_world (demo_store ''Confirmed'' [] []) [Fault ''P1001: cannot reach database'']) =
       (Inl (Error ''Something went wrong. Please try again letter.''),
        \<lparr>db = demo_store ''Confirmed'' [] [],
         logs = [''Unable to fetch ride: P1001: cannot reach database'',
                 ''Error insert message: Error: Something went wrong. Please try again letter.''],
         script = []\<rparr>)
   \<and> fst (getMessagesByRide ''dora'' ''r1''
       (demo_world (demo_store ''Confirmed'' [] []) [Fault ''P1001: cannot reach database''])) =
       Inl (Error ''Something went wrong. Please try again letter.'')
   \<and> validateCredentials ''r1'' ''dora''
       (demo_world (demo_store ''Confirmed'' [] []) [Quiet, Fault ''P2024: timed out'']) =
       (Inr True, demo_world (demo_store ''Confirmed'' [] []) [Fault ''P2024: timed out''])
   \<and> script (demo_world (demo_store ''Confirmed'' [] []) [Fault ''P2024: timed out'']) =
       Fault ''P2024: timed out'' # []
   \<and> insertMessage ''r1'' ''dora'' ''hi''
       (demo_world (demo_store ''Confirmed'' [] []) [Quiet, Fault ''P2024: timed out'']) =
       (Inl (StoreError ''P2024: timed out''),
        \<lparr>db = demo_store ''Confirmed'' [] [],
         logs = [''Error insert message: P2024: timed out''], script = []\<rparr>)"
  using store_failures_are_logged
      [of "demo_world (demo_store ''Confirmed'' [] []) [Fault ''P1001: cannot reach database'']"
          "''P1001: cannot reach database''" "[]" "''r1''" "''dora''" "''hi''" True
          "demo_world (demo_store ''Confirmed'' [] []) []"]
    store_failures_are_logged
      [of "demo_world (demo_store ''Confirmed'' [] []) [Quiet, Fault ''P2024: timed out'']"
          "''P2024: timed out''" "[]" "''r1''" "''dora''" "''hi''" True
          "demo_world (demo_store ''Confirmed'' [] []) [Fault ''P2024: timed out'']"]
    validateCredentials_seen
      [of "demo_world (demo_store ''Confirmed'' [] []) [Quiet, Fault ''P2024: timed out'']"
          "demo_store ''Confirmed'' [] []" "''r1''" "''dora''"]
  by (simp add: demo_defs after_def)

section \<open>Atomicity of insertMessage\<close>

lemma isolated_cases:
  assumes "isolated w"
  obtains (answered) "seen w = Some (db w)" | (fault) raw es where "script w = Fault raw # es"
  using assms
  by (cases "script w") (auto simp: isolated_def seen_def split: env.splits)

lemma isolated_after: "isolated w \<Longrightarrow> isolated (after s w)"
  by (cases "script w") (auto simp: isolated_def after_def)

lemma isolated_tl: "script w = e # es \<Longrightarrow> isolated w \<Longrightarrow> isolated (w\<lparr>script := es\<rparr>)"
  by (auto simp: isolated_def)

lemma isolated_logger_error [simp]: "isolated (logger_error line w) = isolated w"
  by (simp add: isolated_def logger_error_def)

lemma db_logger_error [simp]: "db (logger_error line w) = db w"
  by (simp add: logger_error_def)

lemma db_after [simp]: "db (after s w) = s"
  by (simp add: after_def)

lemma validateCredentials_isolated:
  assumes "isolated w"
  shows "db (snd (validateCredentials rideId userId w)) = db w
       \<and> isolated (snd (validateCredentials rideId userId w))"
  using assms
proof (cases rule: isolated_cases)
  case answered
  then show ?thesis
    using assms by (simp add: validateCredentials_seen isolated_after)
next
  case (fault raw es)
  then show ?thesis
    using assms by (simp add: validateCredentials_fault isolated_tl)
qed

text \<open>
  C6. While no other request commits, a run of insertMessage either returns the created
  message, and then the store holds exactly one more chat message, namely the returned one
  with the given ride, sender and content, appended to the messages it held before, the other
  tables being as they were; or it fails, and then the store is as it was. In particular a
  failure of the validator is the failure of insertMessage, unchanged, and leaves the store
  as it was.
\<close>

theorem insertMessage_atomic:
  assumes "isolated w"
  shows "(case insertMessage rideId senderId content w of
            (Inl e, w') \<Rightarrow> db w' = db w
          | (Inr m, w') \<Rightarrow>
              chatMessages (db w') = chatMessages (db w) @ [m]
            \<and> msg_rideId m = rideId \<and> msg_userId m = senderId \<and> msg_content m = content
            \<and> rides (db w') = rides (db w) \<and> bookings (db w') = bookings (db w)
            \<and> users (db w') = users (db w))
       \<and> (validateCredentials rideId senderId w = (Inl e, w1) \<longrightarrow>
            fst (insertMessage rideId senderId content w) = Inl e
          \<and> db (snd (insertMessage rideId senderId content w)) = db w)"
proof -
  obtain r w1' where v: "validateCredentials rideId senderId w = (r, w1')"
    by (cases "validateCredentials rideId senderId w")
  have w1': "db w1' = db w" "isolated w1'"
    using validateCredentials_isolated[OF assms, of rideId senderId] v by simp_all
  show ?thesis
  proof (cases r)
    case (Inl e')
    then show ?thesis
      using v w1' by (auto simp: insertMessage_def)
  next
    case (Inr ok)
    from w1'(2) show ?thesis
    proof (cases rule: isolated_cases)
      case answered
      then show ?thesis
        using v Inr w1'
        by (auto simp: insertMessage_def prisma_seen chatMessage_create_def Let_def)
    next
      case (fault raw es)
      then show ?thesis
        using v Inr w1' by (auto simp: insertMessage_def prisma_fault)
    qed
  qed
qed

theorem insertMessage_atomic_witness:
  "isolated (demo_world (demo_store ''Confirmed'' [demo_booking ''b1'' ''uma'' ''Confirmed''] [])
       [Quiet, Quiet])
   \<and> insertMessage ''r1'' ''uma'' ''hi''
       (demo_world (demo_store ''Confirmed'' [demo_booking ''b1'' ''uma'' ''Confirmed''] [])
          [Quiet, Quiet]) =
     (Inr (demo_message 0 ''uma'' ''hi'' 100),
      demo_world ((demo_store ''Confirmed'' [demo_booking ''b1'' ''uma'' ''Confirmed''] [])
                    \<lparr>chatMessages := [demo_message 0 ''uma'' ''hi'' 100], msg_seq := 1\<rparr>) [])
   \<and> validateCredentials ''r1'' ''vik''
       (demo_world (demo_store ''Confirmed'' [demo_booking ''b1'' ''uma'' ''Confirmed''] [])
          [Quiet, Quiet]) =
     (Inl (Error ''Unauthorized sender''),
      demo_world (demo_store ''Confirmed'' [demo_booking ''b1'' ''uma'' ''Confirmed''] []) [Quiet])
   \<and> fst (insertMessage ''r1'' ''vik'' ''hi''
       (demo_world (demo_store ''Confirmed'' [demo_booking ''b1'' ''uma'' ''Confirmed''] [])
          [Quiet, Quiet])) = Inl (Error ''Unauthorized sender'')
   \<and> db (snd (insertMessage ''r1'' ''vik'' ''hi''
       (demo_world (demo_store ''Confirmed'' [demo_booking ''b1'' ''uma'' ''Confirmed''] [])
          [Quiet, Quiet]))) =
     demo_store ''Confirmed'' [demo_booking ''b1'' ''uma'' ''Confirmed''] []"
  using insertMessage_atomic
      [of "demo_world (demo_store ''Confirmed'' [demo_booking ''b1'' ''uma'' ''Confirmed''] [])
             [Quiet, Quiet]"
          "''r1''" "''uma''" "''hi''" "Error ''Unauthorized sender''"
          "demo_world (demo_store ''Confirmed'' [demo_booking ''b1'' ''uma'' ''Confirmed''] [])
             [Quiet]"]
    insertMessage_atomic
      [of "demo_world (demo_store ''Confirmed'' [demo_booking ''b1'' ''uma'' ''Confirmed''] [])
             [Quiet, Quiet]"
          "''r1''" "''vik''" "''hi''" "Error ''Unauthorized sender''"
          "demo_world (demo_store ''Confirmed'' [demo_booking ''b1'' ''uma'' ''Confirmed''] [])
             [Quiet]"]
  by (simp add: demo_defs isolated_def insertMessage_def validateCredentials_def
      prisma_def ride_findUnique_bookings_def chatMessage_create_def Let_def logger_error_def)

section \<open>Reading the chat\<close>

lemma map_throwing_include:
  assumes "users_present key s xs"
    and "\<And>x u. find_user (key x) s = Some u \<Longrightarrow> f (x, Some u) = Inr (g x)"
  shows "map_throwing f (include_user key s xs) = Inr (map g xs)"
  using assms(1)
proof (induction xs)
  case Nil
  then show ?case by (simp add: include_user_def)
next
  case (Cons x xs)
  then obtain u where u: "find_user (key x) s = Some u"
    by (auto simp: users_present_def)
  from Cons have "map_throwing f (include_user key s xs) = Inr (map g xs)"
    by (simp add: users_present_def)
  with u assms(2)[OF u] show ?case
    by (simp add: include_user_def)
qed

lemma map_throwing_Inl:
  "map_throwing f xs = Inl e \<Longrightarrow> \<exists>x \<in> set xs. f x = Inl e"
  by (induction xs) (auto split: sum.splits)

lemma undisturbed_seen: "undisturbed w \<Longrightarrow> seen w = Some (db w)"
  by (cases "script w") (auto simp: undisturbed_def seen_def split: env.splits)

lemma undisturbed_after: "undisturbed w \<Longrightarrow> undisturbed (after s w)"
  by (cases "script w") (auto simp: undisturbed_def after_def)

lemma withRole_present:
  "find_user (msg_userId m) s = Some u \<Longrightarrow> withRole d (m, Some u) = Inr (role_row d s m)"
  by (simp add: role_row_def)

lemma truncate_role_row: "chatMessage.truncate (role_row d s m) = m"
  by (simp add: role_row_def chatMessage.truncate_def)

lemma createdAt_role_row: "msg_createdAt (role_row d s m) = msg_createdAt m"
  by (simp add: role_row_def)

lemma getMessagesByRide_undisturbed:
  assumes "undisturbed w"
    and "fst (validateCredentials rideId userId w) = Inr ok"
    and "find_ride rideId (db w) = Some r"
    and "users_present msg_userId (db w) (ride_messages rideId (db w))"
  shows "getMessagesByRide userId rideId w =
    (Inr (map (role_row (ride_driverId r) (db w))
            (sort_key msg_createdAt (ride_messages rideId (db w)))),
     after (db w) (after (db w) (after (db w) w)))"
proof -
  let ?s = "db w"
  let ?w1 = "after ?s w"
  let ?w2 = "after ?s ?w1"
  let ?rows = "sort_key msg_createdAt (ride_messages rideId ?s)"
  have s0: "seen w = Some ?s"
    using assms(1) by (rule undisturbed_seen)
  have "snd (validateCredentials rideId userId w) = ?w1"
    by (simp add: validateCredentials_seen[OF s0])
  with assms(2) have v: "validateCredentials rideId userId w = (Inr ok, ?w1)"
    by (cases "validateCredentials rideId userId w") simp
  have u1: "undisturbed ?w1"
    using assms(1) by (rule undisturbed_after)
  have u2: "undisturbed ?w2"
    using u1 by (rule undisturbed_after)
  have s1: "seen ?w1 = Some ?s"
    using undisturbed_seen[OF u1] by simp
  have s2: "seen ?w2 = Some ?s"
    using undisturbed_seen[OF u2] by simp
  have d: "prisma (ride_findUnique_driverId rideId) ?w1 = (Inr (Some (ride_driverId r)), ?w2)"
    using assms(3) by (simp add: prisma_seen[OF s1] ride_findUnique_driverId_def)
  have p: "users_present msg_userId ?s ?rows"
    using assms(4) by (simp add: users_present_def list_all_iff)
  have f: "prisma (chatMessage_findMany rideId) ?w2 =
      (Inr (include_user msg_userId ?s ?rows), after ?s ?w2)"
    by (simp add: prisma_seen[OF s2] chatMessage_findMany_def ride_messages_def)
  have m: "map_throwing (withRole (ride_driverId r)) (include_user msg_userId ?s ?rows) =
      Inr (map (role_row (ride_driverId r) ?s) ?rows)"
    using p by (rule map_throwing_include) (rule withRole_present)
  show ?thesis
    by (simp add: getMessagesByRide_def v d f m)
qed

text \<open>
  C4. When the store answers and does not change under the run, the validator passes the
  caller, and the senders of the ride's messages exist, getMessagesByRide returns a list that
  holds exactly the ride's chat messages (as a multiset: each one once, none of another
  ride), in non-decreasing order of creation time, each with a \<open>user.isDriver\<close> flag that is
  true exactly when the message's sender id is the ride's driver id.
\<close>

theorem getMessagesByRide_sorted_with_roles:
  assumes "undisturbed w"
    and "fst (validateCredentials rideId userId w) = Inr True"
    and "find_ride rideId (db w) = Some r"
    and "users_present msg_userId (db w) (ride_messages rideId (db w))"
  shows "(case fst (getMessagesByRide userId rideId w) of
            Inl e \<Rightarrow> False
          | Inr ms \<Rightarrow>
              mset (map chatMessage.truncate ms) = mset (ride_messages rideId (db w))
            \<and> sorted (map msg_createdAt ms)
            \<and> (\<forall>m \<in> set ms. isDriver (msg_user m) = (msg_userId m = ride_driverId r)
                             \<and> user_id (msg_user m) = msg_userId m))"
proof -
  let ?rows = "sort_key msg_createdAt (ride_messages rideId (db w))"
  let ?ms = "map (role_row (ride_driverId r) (db w)) ?rows"
  have run: "fst (getMessagesByRide userId rideId w) = Inr ?ms"
    using getMessagesByRide_undisturbed[OF assms] by simp
  have all: "map chatMessage.truncate ?ms = ?rows"
    by (simp add: comp_def truncate_role_row)
  have order: "map msg_createdAt ?ms = map msg_createdAt ?rows"
    by (simp add: comp_def createdAt_role_row)
  have role: "isDriver (msg_user m) = (msg_userId m = ride_driverId r)
              \<and> user_id (msg_user m) = msg_userId m" if "m \<in> set ?ms" for m
  proof -
    from that obtain x where x: "x \<in> set (ride_messages rideId (db w))"
      and m: "m = role_row (ride_driverId r) (db w) x"
      by auto
    from x assms(4) obtain u where u: "find_user (msg_userId x) (db w) = Some u"
      by (auto simp: users_present_def list_all_iff)
    then have "user_id u = msg_userId x"
      by (rule find_user_id)
    with m u show ?thesis
      by (simp add: role_row_def)
  qed
  have "mset (map chatMessage.truncate ?ms) = mset (ride_messages rideId (db w))"
    by (simp only: all mset_sort)
  moreover have "sorted (map msg_createdAt ?ms)"
    by (simp only: order sorted_sort_key)
  moreover have "\<forall>m \<in> set ?ms. isDriver (msg_user m) = (msg_userId m = ride_driverId r)
                             \<and> user_id (msg_user m) = msg_userId m"
    using role by blast
  ultimately show ?thesis
    unfolding run sum.case by (intro conjI)
qed

theorem getMessagesByRide_sorted_with_roles_witness:
  "undisturbed (demo_world (demo_store ''Confirmed'' [demo_booking ''b1'' ''uma'' ''Confirmed'']
       demo_chat) [])
   \<and> fst (validateCredentials ''r1'' ''uma''
       (demo_world (demo_store ''Confirmed'' [demo_booking ''b1'' ''uma'' ''Confirmed'']
          demo_chat) [])) = Inr True
   \<and> find_ride ''r1'' (demo_store ''Confirmed'' [demo_booking ''b1'' ''uma'' ''Confirmed'']
       demo_chat) = Some (demo_ride ''Confirmed'')
   \<and> users_present msg_userId
       (demo_store ''Confirmed'' [demo_booking ''b1'' ''uma'' ''Confirmed''] demo_chat)
       (ride_messages ''r1''
          (demo_store ''Confirmed'' [demo_booking ''b1'' ''uma'' ''Confirmed''] demo_chat))
   \<and> map (\<lambda>m. (msg_content m, msg_createdAt m, isDriver (msg_user m)))
       (case fst (getMessagesByRide ''uma'' ''r1''
          (demo_world (demo_store ''Confirmed'' [demo_booking ''b1'' ''uma'' ''Confirmed'']
             demo_chat) [])) of Inl e \<Rightarrow> [] | Inr ms \<Rightarrow> ms) =
     [(''pickup at 9'', 10, True), (''ok'', 20, False), (''on my way'', 30, False)]"
  using getMessagesByRide_sorted_with_roles
      [of "demo_world (demo_store ''Confirmed'' [demo_booking ''b1'' ''uma'' ''Confirmed'']
             demo_chat) []"
          "''r1''" "''uma''" "demo_ride ''Confirmed''"]
  by (simp add: demo_defs undisturbed_def users_present_def
      getMessagesByRide_def validateCredentials_def prisma_def ride_findUnique_bookings_def
      ride_findUnique_driverId_def chatMessage_findMany_def include_user_def)

section \<open>The participants of a ride\<close>

lemma getRideParticipants_seen:
  assumes "seen w = Some s" and "find_ride rideId s = Some r"
    and "find_user (ride_driverId r) s = Some d"
    and "users_present booking_userId s (ride_bookings rideId s)"
  shows "getRideParticipants rideId w =
    (Inr (\<lparr>p_id = ride_driverId r, p_name = or_default (user_name d) ''Champion'',
            p_email = user_email d, p_isDriver = True\<rparr> #
          map (\<lambda>b. \<lparr>p_id = booking_userId b,
                     p_name = or_default (user_name (the (find_user (booking_userId b) s))) ''Rider'',
                     p_email = user_email (the (find_user (booking_userId b) s)),
                     p_isDriver = False\<rparr>)
              (ride_bookings rideId s)), after s w)"
proof -
  have rid: "ride_id r = rideId"
    using assms(2) by (rule find_ride_id)
  have did: "user_id d = ride_driverId r"
    using assms(3) by (rule find_user_id)
  have q: "ride_findUnique_participants rideId s =
      (Inr (Some (r, Some d, include_user booking_userId s (ride_bookings rideId s))), s)"
    using assms(2,3) by (simp add: ride_findUnique_participants_def rid ride_bookings_def)
  have ps: "map_throwing passengerParticipant_of
        (include_user booking_userId s (ride_bookings rideId s)) =
      Inr (map (\<lambda>b. \<lparr>p_id = booking_userId b,
                     p_name = or_default (user_name (the (find_user (booking_userId b) s))) ''Rider'',
                     p_email = user_email (the (find_user (booking_userId b) s)),
                     p_isDriver = False\<rparr>)
              (ride_bookings rideId s))"
    using assms(4)
  proof (rule map_throwing_include)
    fix b :: booking and u
    assume u: "find_user (booking_userId b) s = Some u"
    then have "user_id u = booking_userId b"
      by (rule find_user_id)
    with u show "passengerParticipant_of (b, Some u) =
        Inr \<lparr>p_id = booking_userId b,
             p_name = or_default (user_name (the (find_user (booking_userId b) s))) ''Rider'',
             p_email = user_email (the (find_user (booking_userId b) s)),
             p_isDriver = False\<rparr>"
      by simp
  qed
  show ?thesis
    by (simp add: getRideParticipants_def prisma_seen[OF assms(1)] q ps did)
qed

text \<open>
  C5. For a ride that exists (its driver and the users of its bookings being in the store),
  getRideParticipants returns one entry for the driver followed by one entry for each booking
  of the ride, in the order of the bookings table and whatever the bookings' statuses: 1 +
  (number of bookings) entries. The driver's entry has the ride's driver id and
  \<open>isDriver = True\<close>, the others the booking's user id and \<open>isDriver = False\<close>; a name that
  is unset (or empty) is replaced by "Champion" for the driver and by "Rider" for a rider.
\<close>

theorem getRideParticipants_lists_everyone:
  assumes "seen w = Some s" and "find_ride rideId s = Some r"
    and "find_user (ride_driverId r) s = Some d"
    and "users_present booking_userId s (ride_bookings rideId s)"
  shows "fst (getRideParticipants rideId w) =
      Inr (\<lparr>p_id = ride_driverId r,
             p_name = (case user_name d of
                         None \<Rightarrow> ''Champion''
                       | Some n \<Rightarrow> if n = [] then ''Champion'' else n),
             p_email = user_email d, p_isDriver = True\<rparr> #
           map (\<lambda>b. \<lparr>p_id = booking_userId b,
                      p_name = (case user_name (the (find_user (booking_userId b) s)) of
                                  None \<Rightarrow> ''Rider''
                                | Some n \<Rightarrow> if n = [] then ''Rider'' else n),
                      p_email = user_email (the (find_user (booking_userId b) s)),
                      p_isDriver = False\<rparr>)
               (ride_bookings rideId s))
    \<and> (case fst (getRideParticipants rideId w) of
          Inl e \<Rightarrow> False
        | Inr ps \<Rightarrow> length ps = 1 + length (ride_bookings rideId s))"
  by (simp add: getRideParticipants_seen[OF assms] or_default_def)

theorem getRideParticipants_lists_everyone_witness:
  "seen (demo_world (demo_store ''Confirmed''
           [demo_booking ''b1'' ''uma'' ''CancelledUser'', demo_booking ''b2'' ''vik'' ''Confirmed'',
            (demo_booking ''b3'' ''uma'' ''Confirmed'')\<lparr>booking_rideId := ''r2''\<rparr>] []) []) =
     Some (demo_store ''Confirmed''
           [demo_booking ''b1'' ''uma'' ''CancelledUser'', demo_booking ''b2'' ''vik'' ''Confirmed'',
            (demo_booking ''b3'' ''uma'' ''Confirmed'')\<lparr>booking_rideId := ''r2''\<rparr>] [])
   \<and> find_ride ''r1'' (demo_store ''Confirmed''
           [demo_booking ''b1'' ''uma'' ''CancelledUser'', demo_booking ''b2'' ''vik'' ''Confirmed'',
            (demo_booking ''b3'' ''uma'' ''Confirmed'')\<lparr>booking_rideId := ''r2''\<rparr>] []) =
     Some (demo_ride ''Confirmed'')
   \<and> find_user (ride_driverId (demo_ride ''Confirmed'')) (demo_store ''Confirmed''
           [demo_booking ''b1'' ''uma'' ''CancelledUser'', demo_booking ''b2'' ''vik'' ''Confirmed'',
            (demo_booking ''b3'' ''uma'' ''Confirmed'')\<lparr>booking_rideId := ''r2''\<rparr>] []) =
     Some \<lparr>user_id = ''dora'', user_name = None, user_email = ''dora@example.org''\<rparr>
   \<and> users_present booking_userId (demo_store ''Confirmed''
           [demo_booking ''b1'' ''uma'' ''CancelledUser'', demo_booking ''b2'' ''vik'' ''Confirmed'',
            (demo_booking ''b3'' ''uma'' ''Confirmed'')\<lparr>booking_rideId := ''r2''\<rparr>] [])
        (ride_bookings ''r1'' (demo_store ''Confirmed''
           [demo_booking ''b1'' ''uma'' ''CancelledUser'', demo_booking ''b2'' ''vik'' ''Confirmed'',
            (demo_booking ''b3'' ''uma'' ''Confirmed'')\<lparr>booking_rideId := ''r2''\<rparr>] []))
   \<and> fst (getRideParticipants ''r1'' (demo_world (demo_store ''Confirmed''
           [demo_booking ''b1'' ''uma'' ''CancelledUser'', demo_booking ''b2'' ''vik'' ''Confirmed'',
            (demo_booking ''b3'' ''uma'' ''Confirmed'')\<lparr>booking_rideId := ''r2''\<rparr>] []) [])) =
     Inr [\<lparr>p_id = ''dora'', p_name = ''Champion'', p_email = ''dora@example.org'',
           p_isDriver = True\<rparr>,
          \<lparr>p_id = ''uma'', p_name = ''Uma'', p_email = ''uma@example.org'', p_isDriver = False\<rparr>,
          \<lparr>p_id = ''vik'', p_name = ''Rider'', p_email = ''vik@example.org'',
           p_isDriver = False\<rparr>]"
  using getRideParticipants_lists_everyone
      [of "demo_world (demo_store ''Confirmed''
           [demo_booking ''b1'' ''uma'' ''CancelledUser'', demo_booking ''b2'' ''vik'' ''Confirmed'',
            (demo_booking ''b3'' ''uma'' ''Confirmed'')\<lparr>booking_rideId := ''r2''\<rparr>] []) []"
          "demo_store ''Confirmed''
           [demo_booking ''b1'' ''uma'' ''CancelledUser'', demo_booking ''b2'' ''vik'' ''Confirmed'',
            (demo_booking ''b3'' ''uma'' ''Confirmed'')\<lparr>booking_rideId := ''r2''\<rparr>] []"
          "''r1''" "demo_ride ''Confirmed''"
          "\<lparr>user_id = ''dora'', user_name = None, user_email = ''dora@example.org''\<rparr>"]
  by (simp add: demo_defs users_present_def)

text \<open>
  Every failure of getRideParticipants is "Ride not found", an error of the store, or the
  runtime's error on a null driver or user; with the users in the store only the first two
  remain.
\<close>

lemma getRideParticipants_failures:
  "fst (getRideParticipants rideId w) = Inl e \<Longrightarrow>
   e = Error ''Ride not found'' \<or> e = null_id \<or> (\<exists>raw. e = StoreError raw)"
proof -
  assume a: "fst (getRideParticipants rideId w) = Inl e"
  have pp: "map_throwing passengerParticipant_of xs = Inl e' \<Longrightarrow> e' = null_id" for xs e'
  proof -
    assume "map_throwing passengerParticipant_of xs = Inl e'"
    then obtain x where "passengerParticipant_of x = Inl e'"
      using map_throwing_Inl by blast
    then show "e' = null_id"
      by (cases x; cases "snd x") auto
  qed
  have dp: "driverParticipant_of u = Inl e' \<Longrightarrow> e' = null_id" for u e'
    by (cases u) auto
  show ?thesis
  proof (cases "prisma (ride_findUnique_participants rideId) w")
    case (Pair res w1)
    show ?thesis
    proof (cases res)
      case (Inl e0)
      with Pair have "\<exists>raw. e0 = StoreError raw"
        by (auto simp: prisma_def ride_findUnique_participants_def
            split: list.splits env.splits prod.splits)
      with a Pair Inl show ?thesis
        by (auto simp: getRideParticipants_def)
    next
      case (Inr found)
      with a Pair show ?thesis
        by (auto simp: getRideParticipants_def split: option.splits sum.splits dest: pp dp)
    qed
  qed
qed

lemma getRideParticipants_integral:
  assumes "case seen w of None \<Rightarrow> True | Some s \<Rightarrow> participants_present rideId s"
    and "fst (getRideParticipants rideId w) = Inl e"
  shows "e = Error ''Ride not found'' \<or> (\<exists>raw. e = StoreError raw)"
proof (cases "seen w")
  case None
  then obtain raw es where "script w = Fault raw # es"
    by (auto simp: seen_def split: list.splits env.splits)
  then have "fst (getRideParticipants rideId w) = Inl (StoreError raw)"
    by (simp add: getRideParticipants_def prisma_fault)
  with assms(2) show ?thesis by auto
next
  case (Some s)
  show ?thesis
  proof (cases "find_ride rideId s")
    case None
    with Some have "fst (getRideParticipants rideId w) = Inl (Error ''Ride not found'')"
      by (simp add: getRideParticipants_def prisma_seen ride_findUnique_participants_def)
    with assms(2) show ?thesis by simp
  next
    case (Some r)
    with assms(1) \<open>seen w = Some s\<close> obtain d where "find_user (ride_driverId r) s = Some d"
      and "users_present booking_userId s (ride_bookings rideId s)"
      by (auto simp: participants_present_def)
    with \<open>seen w = Some s\<close> Some have "\<exists>ps. fst (getRideParticipants rideId w) = Inr ps"
      by (simp add: getRideParticipants_seen)
    with assms(2) show ?thesis by auto
  qed
qed

text \<open>
  C10. getRideParticipants takes a ride id and nothing about the caller, and never runs the
  validator. No failure it can end in is an Unauthorized or ChatClosed failure. When the
  driver and the booking users of the ride are in the store, its only failures are "Ride not
  found" and an error thrown by the store. For a ride that exists it returns the list of
  participants, each with id, name and email: the driver's entry, then one entry per booking
  of the ride; nothing is asked of the ride's status, so a ride with status "Cancelled" is
  listed like any other. For a ride that does not exist it fails with "Ride not found", and
  when the store's lookup fails it fails with the store's error.
\<close>

theorem getRideParticipants_unguarded:
  "(fst (getRideParticipants rideId w) = Inl e \<longrightarrow>
      (e = Error ''Ride not found'' \<or> e = null_id \<or> (\<exists>raw. e = StoreError raw))
      \<and> failure_of e \<noteq> Unauthorized \<and> failure_of e \<noteq> ChatClosed)
   \<and> ((case seen w of None \<Rightarrow> True | Some s' \<Rightarrow> participants_present rideId s') \<and>
      fst (getRideParticipants rideId w) = Inl e \<longrightarrow>
      e = Error ''Ride not found'' \<or> (\<exists>raw. e = StoreError raw))
   \<and> (seen w = Some s \<and> find_ride rideId s = Some r \<and>
      find_user (ride_driverId r) s = Some d \<and>
      users_present booking_userId s (ride_bookings rideId s) \<longrightarrow>
      fst (getRideParticipants rideId w) =
        Inr (\<lparr>p_id = ride_driverId r,
               p_name = (case user_name d of
                           None \<Rightarrow> ''Champion''
                         | Some n \<Rightarrow> if n = [] then ''Champion'' else n),
               p_email = user_email d, p_isDriver = True\<rparr> #
             map (\<lambda>b. \<lparr>p_id = booking_userId b,
                        p_name = (case user_name (the (find_user (booking_userId b) s)) of
                                    None \<Rightarrow> ''Rider''
                                  | Some n \<Rightarrow> if n = [] then ''Rider'' else n),
                        p_email = user_email (the (find_user (booking_userId b) s)),
                        p_isDriver = False\<rparr>)
                 (ride_bookings rideId s)))
   \<and> (seen w = Some s \<and> find_ride rideId s = None \<longrightarrow>
      fst (getRideParticipants rideId w) = Inl (Error ''Ride not found''))
   \<and> (script w = Fault raw # es \<longrightarrow>
      fst (getRideParticipants rideId w) = Inl (StoreError raw))"
proof (intro conjI impI)
  assume "fst (getRideParticipants rideId w) = Inl e"
  then have k: "e = Error ''Ride not found'' \<or> e = null_id \<or> (\<exists>raw. e = StoreError raw)"
    by (rule getRideParticipants_failures)
  then show "e = Error ''Ride not found'' \<or> e = null_id \<or> (\<exists>raw. e = StoreError raw)" .
  from k show "failure_of e \<noteq> Unauthorized" by (auto simp: null_id_def)
  from k show "failure_of e \<noteq> ChatClosed" by (auto simp: null_id_def)
next
  assume "(case seen w of None \<Rightarrow> True | Some s' \<Rightarrow> participants_present rideId s') \<and>
      fst (getRideParticipants rideId w) = Inl e"
  then show "e = Error ''Ride not found'' \<or> (\<exists>raw. e = StoreError raw)"
    using getRideParticipants_integral by blast
next
  assume "seen w = Some s \<and> find_ride rideId s = Some r \<and>
      find_user (ride_driverId r) s = Some d \<and>
      users_present booking_userId s (ride_bookings rideId s)"
  then show "fst (getRideParticipants rideId w) =
        Inr (\<lparr>p_id = ride_driverId r,
               p_name = (case user_name d of
                           None \<Rightarrow> ''Champion''
                         | Some n \<Rightarrow> if n = [] then ''Champion'' else n),
               p_email = user_email d, p_isDriver = True\<rparr> #
             map (\<lambda>b. \<lparr>p_id = booking_userId b,
                        p_name = (case user_name (the (find_user (booking_userId b) s)) of
                                    None \<Rightarrow> ''Rider''
                                  | Some n \<Rightarrow> if n = [] then ''Rider'' else n),
                        p_email = user_email (the (find_user (booking_userId b) s)),
                        p_isDriver = False\<rparr>)
                 (ride_bookings rideId s))"
    by (simp add: getRideParticipants_seen or_default_def)
next
  assume "seen w = Some s \<and> find_ride rideId s = None"
  then show "fst (getRideParticipants rideId w) = Inl (Error ''Ride not found'')"
    by (simp add: getRideParticipants_def prisma_seen ride_findUnique_participants_def)
next
  assume "script w = Fault raw # es"
  then show "fst (getRideParticipants rideId w) = Inl (StoreError raw)"
    by (simp add: getRideParticipants_def prisma_fault)
qed

theorem getRideParticipants_unguarded_witness:
  "fst (getRideParticipants ''r9''
      (demo_world (demo_store ''Cancelled'' [demo_booking ''b1'' ''uma'' ''CancelledDriver''] []) [])) =
     Inl (Error ''Ride not found'')
   \<and> failure_of (Error ''Ride not found'') = NotFound
   \<and> seen (demo_world (demo_store ''Cancelled'' [demo_booking ''b1'' ''uma'' ''CancelledDriver''] []) []) =
     Some (demo_store ''Cancelled'' [demo_booking ''b1'' ''uma'' ''CancelledDriver''] [])
   \<and> participants_present ''r9''
       (demo_store ''Cancelled'' [demo_booking ''b1'' ''uma'' ''CancelledDriver''] [])
   \<and> find_ride ''r9'' (demo_store ''Cancelled'' [demo_booking ''b1'' ''uma'' ''CancelledDriver''] []) =
     None
   \<and> find_ride ''r1'' (demo_store ''Cancelled'' [demo_booking ''b1'' ''uma'' ''CancelledDriver''] []) =
     Some (demo_ride ''Cancelled'')
   \<and> ride_status (demo_ride ''Cancelled'') = ''Cancelled''
   \<and> find_user (ride_driverId (demo_ride ''Cancelled''))
       (demo_store ''Cancelled'' [demo_booking ''b1'' ''uma'' ''CancelledDriver''] []) =
     Some \<lparr>user_id = ''dora'', user_name = None, user_email = ''dora@example.org''\<rparr>
   \<and> users_present booking_userId
       (demo_store ''Cancelled'' [demo_booking ''b1'' ''uma'' ''CancelledDriver''] [])
       (ride_bookings ''r1''
          (demo_store ''Cancelled'' [demo_booking ''b1'' ''uma'' ''CancelledDriver''] []))
   \<and> fst (getRideParticipants ''r1''
      (demo_world (demo_store ''Cancelled'' [demo_booking ''b1'' ''uma'' ''CancelledDriver''] []) [])) =
     Inr [\<lparr>p_id = ''dora'', p_name = ''Champion'', p_email = ''dora@example.org'',
           p_isDriver = True\<rparr>,
          \<lparr>p_id = ''uma'', p_name = ''Uma'', p_email = ''uma@example.org'', p_isDriver = False\<rparr>]
   \<and> script (demo_world (demo_store ''Cancelled'' [] []) [Fault ''P1001: cannot reach database'']) =
     Fault ''P1001: cannot reach database'' # []
   \<and> fst (getRideParticipants ''r1''
      (demo_world (demo_store ''Cancelled'' [] []) [Fault ''P1001: cannot reach database''])) =
     Inl (StoreError ''P1001: cannot reach database'')"
  using getRideParticipants_unguarded
      [where rideId = "''r9''"
         and w = "demo_world (demo_store ''Cancelled'' [demo_booking ''b1'' ''uma'' ''CancelledDriver''] []) []"
         and e = "Error ''Ride not found''"
         and s = "demo_store ''Cancelled'' [demo_booking ''b1'' ''uma'' ''CancelledDriver''] []"]
    getRideParticipants_unguarded
      [where rideId = "''r1''"
         and w = "demo_world (demo_store ''Cancelled'' [demo_booking ''b1'' ''uma'' ''CancelledDriver''] []) []"
         and s = "demo_store ''Cancelled'' [demo_booking ''b1'' ''uma'' ''CancelledDriver''] []"
         and r = "demo_ride ''Cancelled''"
         and d = "\<lparr>user_id = ''dora'', user_name = None, user_email = ''dora@example.org''\<rparr>"]
    getRideParticipants_unguarded
      [where rideId = "''r1''"
         and w = "demo_world (demo_store ''Cancelled'' [] []) [Fault ''P1001: cannot reach database'']"
         and raw = "''P1001: cannot reach database''" and es = "[]"]
  by (simp add: demo_defs users_present_def participants_present_def)

end
